theory Spec2Isabelle
  imports Complex_Main "HOL-Library.AList"
begin

section \<open>Values of the parsed configuration document\<close>

text \<open>
  The configuration document reaches \<open>validateConfig\<close> as the untyped result of the YAML
  parser. A number is an IEEE double; the program only compares it with 1 and applies
  \<open>Math.floor\<close>, both of which are exact on doubles, so a finite number is modelled by its
  rational value, next to the two infinities and NaN.
\<close>

datatype jsnum = Fin rat | PosInf | NegInf | NaN

text \<open>\<open>x >= 1\<close>, \<open>x < 1\<close> and \<open>Math.floor(x)\<close> on numbers; every comparison with NaN is false.\<close>

fun ge_one :: "jsnum \<Rightarrow> bool" where
  "ge_one (Fin q) = (1 \<le> q)"
| "ge_one PosInf = True"
| "ge_one NegInf = False"
| "ge_one NaN = False"

fun lt_one :: "jsnum \<Rightarrow> bool" where
  "lt_one (Fin q) = (q < 1)"
| "lt_one PosInf = False"
| "lt_one NegInf = True"
| "lt_one NaN = False"

fun js_floor :: "jsnum \<Rightarrow> jsnum" where
  "js_floor (Fin q) = Fin (of_int \<lfloor>q\<rfloor>)"
| "js_floor PosInf = PosInf"
| "js_floor NegInf = NegInf"
| "js_floor NaN = NaN"

text \<open>\<open>approvals >= required\<close>, where \<open>approvals\<close> is the length of an array.\<close>

fun count_ge :: "nat \<Rightarrow> jsnum \<Rightarrow> bool" where
  "count_ge n (Fin q) = (q \<le> of_nat n)"
| "count_ge n PosInf = False"
| "count_ge n NegInf = True"
| "count_ge n NaN = False"

text \<open>
  A parsed document. The entry list of \<open>JObj\<close> is the object's own enumerable properties
  in the order of \<open>Object.entries\<close>.
\<close>

datatype jsval =
    JUndefined
  | JNull
  | JBool bool
  | JNum jsnum
  | JStr string
  | JArr "jsval list"
  | JObj "(string \<times> jsval) list"

text \<open>\<open>typeof x === "object" && x !== null\<close>\<close>

fun is_object :: "jsval \<Rightarrow> bool" where
  "is_object (JArr vs) = True"
| "is_object (JObj es) = True"
| "is_object v = False"

text \<open>\<open>Boolean(x)\<close>\<close>

fun truthy :: "jsval \<Rightarrow> bool" where
  "truthy JUndefined = False"
| "truthy JNull = False"
| "truthy (JBool b) = b"
| "truthy (JNum (Fin q)) = (q \<noteq> 0)"
| "truthy (JNum NaN) = False"
| "truthy (JNum n) = True"
| "truthy (JStr s) = (s \<noteq> [])"
| "truthy (JArr vs) = True"
| "truthy (JObj es) = True"

text \<open>
  Reading one of the configuration's property names (\<open>labels\<close>, \<open>requiredApprovals\<close>,
  \<open>overrides\<close>, \<open>ignoreDraft\<close>, \<open>retractOnUnlabeled\<close>): an array has none of them.
\<close>

fun get_prop :: "jsval \<Rightarrow> string \<Rightarrow> jsval" where
  "get_prop (JObj es) k = (case map_of es k of Some v \<Rightarrow> v | None \<Rightarrow> JUndefined)"
| "get_prop v k = JUndefined"

text \<open>Decimal rendering of an array index, the property name under which \<open>Object.entries\<close> lists it.\<close>

fun show_nat :: "nat \<Rightarrow> string" where
  "show_nat n =
     (if n < 10 then [char_of (48 + n)]
      else show_nat (n div 10) @ [char_of (48 + n mod 10)])"

declare show_nat.simps [simp del]

text \<open>\<open>Object.entries(x)\<close>\<close>

fun entries :: "jsval \<Rightarrow> (string \<times> jsval) list" where
  "entries (JObj es) = es"
| "entries (JArr vs) = zip (map show_nat [0..<length vs]) vs"
| "entries v = []"

subsection \<open>Strings\<close>

text \<open>
  A string is a list of 8-bit characters. \<open>String.prototype.trim\<close> removes white space and
  line terminators from both ends; among the characters below 256 these are TAB, LF, VT, FF, CR,
  SPACE and NBSP.
\<close>

definition is_ws :: "char \<Rightarrow> bool" where
  "is_ws c = ((of_char c :: nat) \<in> {9, 10, 11, 12, 13, 32, 160})"

definition trim :: "string \<Rightarrow> string" where
  "trim s = rev (dropWhile is_ws (rev (dropWhile is_ws s)))"

text \<open>\<open>xs.join(sep)\<close>\<close>

fun join :: "string \<Rightarrow> string list \<Rightarrow> string" where
  "join sep [] = []"
| "join sep [x] = x"
| "join sep (x # y # ys) = x @ sep @ join sep (y # ys)"

subsection \<open>Plain objects used as dictionaries\<close>

text \<open>
  \<open>config.labels\<close>, \<open>config.overrides\<close> and the member cache are plain objects created by
  \<open>{}\<close>, so they inherit from \<open>Object.prototype\<close>. A map holds their own properties;
  \<open>hasOwnProperty\<close> is a lookup in that map, while \<open>in\<close> and a property read also find
  the names below. What is inherited under such a name is a function, or, under
  \<open>__proto__\<close>, the prototype object: a truthy value that is neither a string nor a
  \<open>Set\<close>. An assignment to \<open>__proto__\<close> of a value that is not an object changes nothing.
\<close>

definition objectPrototypeKeys :: "string list" where
  "objectPrototypeKeys =
     [''constructor'', ''__defineGetter__'', ''__defineSetter__'', ''hasOwnProperty'',
      ''__lookupGetter__'', ''__lookupSetter__'', ''isPrototypeOf'', ''propertyIsEnumerable'',
      ''toString'', ''valueOf'', ''__proto__'', ''toLocaleString'']"

text \<open>
  What a read of \<open>config.labels[k]\<close> can give besides \<open>undefined\<close>: a string of the
  configuration, or the value inherited under the name \<open>k\<close>.
\<close>

datatype teamref = Slug string | Inherited string

text \<open>
  The property key that a value becomes in \<open>cache[teamSlug]\<close>: a string is its own key; a
  function becomes its source text as the runtime of the action prints it, and the prototype
  object becomes \<open>[object Object]\<close>.
\<close>

definition propertyKey :: "teamref \<Rightarrow> string" where
  "propertyKey t =
     (case t of
        Slug s \<Rightarrow> s
      | Inherited k \<Rightarrow>
          if k = ''__proto__'' then ''[object Object]''
          else ''function '' @ (if k = ''constructor'' then ''Object'' else k)
               @ ''() { [native code] }'')"

section \<open>Configuration\<close>

text \<open>
  \<open>interface LabelConfig\<close>. The fields \<open>requiredApprovals\<close> and \<open>overrides\<close> are optional in
  the interface and read with \<open>??\<close> and \<open>?.\<close> by \<open>run\<close>; an override is
  \<open>{ requiredApprovals?: number }\<close>. \<open>labels\<close> and \<open>overrides\<close> hold the own properties of
  the two objects.
\<close>

record LabelConfig =
  labels :: "string \<rightharpoonup> string"
  requiredApprovals :: "jsnum option"
  overrides :: "(string \<rightharpoonup> jsnum option) option"
  ignoreDraft :: bool
  retractOnUnlabeled :: bool

text \<open>The errors \<open>validateConfig\<close> throws, one constructor per message.\<close>

datatype config_error =
    RootNotObject
  | LabelsNotObject
  | BadTeamSlug string
  | BadOverride string jsval

text \<open>
  The loop over \<open>Object.entries(obj.labels)\<close>. The assignment
  \<open>labels[k.trim()] = v.trim()\<close> stores nothing when the trimmed key is \<open>__proto__\<close>: the
  value is a string.
\<close>

fun collectLabels ::
  "(string \<times> jsval) list \<Rightarrow> (string \<rightharpoonup> string) \<Rightarrow> config_error + (string \<rightharpoonup> string)" where
  "collectLabels [] acc = Inr acc"
| "collectLabels ((k, v) # es) acc =
     (case v of
        JStr s \<Rightarrow>
          if trim s = [] then Inl (BadTeamSlug k)
          else if trim k = ''__proto__'' then collectLabels es acc
          else collectLabels es (acc(trim k \<mapsto> trim s))
      | _ \<Rightarrow> Inl (BadTeamSlug k))"

text \<open>
  The loop over \<open>Object.entries(obj.overrides)\<close>. Under the key \<open>__proto__\<close> the assignment
  \<open>cfg.overrides[k] = { requiredApprovals: ... }\<close> makes the new object the prototype of
  \<open>cfg.overrides\<close> instead of an own property. The only read of \<open>cfg.overrides\<close> is
  \<open>config.overrides?.[domainKey]?.requiredApprovals\<close>, which then finds that object under
  \<open>__proto__\<close> and finds no \<open>requiredApprovals\<close> under any other name that is not an own
  property, exactly as if the object were stored under the key; so the map records it there.
\<close>

fun collectOverrides ::
  "(string \<times> jsval) list \<Rightarrow> (string \<rightharpoonup> jsnum option) \<Rightarrow>
     config_error + (string \<rightharpoonup> jsnum option)" where
  "collectOverrides [] acc = Inr acc"
| "collectOverrides ((k, spec) # es) acc =
     (if is_object spec then
        (case get_prop spec ''requiredApprovals'' of
           JUndefined \<Rightarrow> collectOverrides es acc
         | JNum r \<Rightarrow>
             if lt_one r then Inl (BadOverride k (JNum r))
             else collectOverrides es (acc(k \<mapsto> Some (js_floor r)))
         | r \<Rightarrow> Inl (BadOverride k r))
      else collectOverrides es acc)"

text \<open>The expression that fills \<open>cfg.requiredApprovals\<close>.\<close>

definition topRequiredApprovals :: "jsval \<Rightarrow> jsnum" where
  "topRequiredApprovals v =
     (case v of
        JNum n \<Rightarrow> if ge_one n then js_floor n else Fin 1
      | _ \<Rightarrow> Fin 1)"

definition boolOrTrue :: "jsval \<Rightarrow> bool" where
  "boolOrTrue v = (if v \<noteq> JUndefined then truthy v else True)"

definition validateConfig :: "jsval \<Rightarrow> config_error + LabelConfig" where
  "validateConfig raw =
     (if \<not> is_object raw then Inl RootNotObject
      else if \<not> is_object (get_prop raw ''labels'') then Inl LabelsNotObject
      else
        (case collectLabels (entries (get_prop raw ''labels'')) Map.empty of
           Inl e \<Rightarrow> Inl e
         | Inr ls \<Rightarrow>
             (let cfg = \<lparr> labels = ls,
                          requiredApprovals = Some (topRequiredApprovals (get_prop raw ''requiredApprovals'')),
                          overrides = Some Map.empty,
                          ignoreDraft = boolOrTrue (get_prop raw ''ignoreDraft''),
                          retractOnUnlabeled = boolOrTrue (get_prop raw ''retractOnUnlabeled'') \<rparr>
              in if is_object (get_prop raw ''overrides'') then
                   (case collectOverrides (entries (get_prop raw ''overrides'')) Map.empty of
                      Inl e \<Rightarrow> Inl e
                    | Inr ov \<Rightarrow> Inr (cfg\<lparr> overrides := Some ov \<rparr>))
                 else Inr cfg)))"

section \<open>Review states\<close>

text \<open>
  A review as \<open>pulls.listReviews\<close> delivers it: \<open>login\<close> is \<open>r.user?.login\<close>, and
  \<open>submitted_at\<close> is the review's date-time as the milliseconds that
  \<open>new Date(...).getTime()\<close> reads from it, \<open>None\<close> when the field is absent or empty.
  The service delivers the field in date-time format, so a string that is no date is not
  among the values.
\<close>

record Review =
  login :: "string option"
  state :: string
  submitted_at :: "int option"

text \<open>The value stored per user in \<open>byUser\<close>.\<close>

record ReviewInfo =
  info_state :: string
  info_submitted_at :: "int option"

text \<open>\<open>x ? new Date(x).getTime() : 0\<close>\<close>

definition time_of :: "int option \<Rightarrow> int" where
  "time_of t = (case t of None \<Rightarrow> 0 | Some ms \<Rightarrow> ms)"

definition info_of :: "Review \<Rightarrow> ReviewInfo" where
  "info_of r = \<lparr> info_state = state r, info_submitted_at = submitted_at r \<rparr>"

text \<open>
  One iteration of the loop over \<open>allReviews\<close>. \<open>byUser\<close> is a \<open>Map\<close>: an association
  list in insertion order, in which \<open>set\<close> on a present key keeps the key's position.
\<close>

definition reviewStep :: "Review \<Rightarrow> (string \<times> ReviewInfo) list \<Rightarrow> (string \<times> ReviewInfo) list" where
  "reviewStep r byUser =
     (case login r of
        None \<Rightarrow> byUser
      | Some l \<Rightarrow>
          if l = [] then byUser
          else
            (case map_of byUser l of
               None \<Rightarrow> AList.update l (info_of r) byUser
             | Some current \<Rightarrow>
                 if time_of (submitted_at r) \<ge> time_of (info_submitted_at current)
                 then AList.update l (info_of r) byUser
                 else byUser))"

definition reduceReviews :: "Review list \<Rightarrow> (string \<times> ReviewInfo) list" where
  "reduceReviews allReviews = fold reviewStep allReviews []"

text \<open>The pair \<open>{ approvedUsers, allReviewStates }\<close>; \<open>approvedUsers\<close> in the set's iteration order.\<close>

definition getApprovalsByUser :: "Review list \<Rightarrow> string list \<times> (string \<times> ReviewInfo) list" where
  "getApprovalsByUser allReviews =
     (let byUser = reduceReviews allReviews
      in (map fst (filter (\<lambda>(user, info). info_state info = ''APPROVED'') byUser), byUser))"

section \<open>Label matching\<close>

record DomainExtractionResult =
  domains :: "string list"
  domainLabelMap :: "(string \<times> string) list"

text \<open>A PR label is \<open>{ name?: string | null }\<close>: its name, when it has one.\<close>

definition labelStep :: "LabelConfig \<Rightarrow> string option \<Rightarrow> (string \<times> string) list \<Rightarrow> (string \<times> string) list" where
  "labelStep config l m =
     (case l of
        None \<Rightarrow> m
      | Some name \<Rightarrow>
          if name = [] then m
          else if labels config name \<noteq> None then AList.update name name m
          else m)"

definition extractDomainLabels :: "LabelConfig \<Rightarrow> string option list \<Rightarrow> DomainExtractionResult" where
  "extractDomainLabels config prLabels =
     (let m = fold (labelStep config) prLabels []
      in \<lparr> domains = map fst m, domainLabelMap = m \<rparr>)"

section \<open>The host environment and the effects of a run\<close>

datatype SummaryMode = Minimal | Standard | Verbose

record Inputs =
  token :: string
  configPath :: string
  failOnMissingConfig :: bool
  dryRun :: bool
  debug :: bool
  summaryMode :: SummaryMode

text \<open>
  The fields of \<open>payload.pull_request\<close> that \<open>run\<close> reads: \<open>head_sha\<close> is \<open>pr.head?.sha\<close>,
  \<open>pr_labels\<close> the label names (empty when \<open>pr.labels\<close> is not an array) and
  \<open>requested_teams\<close> the slugs \<open>t?.slug\<close> of the requested teams.
\<close>

record PullRequest =
  head_sha :: "string option"
  draft :: bool
  pr_labels :: "string option list"
  requested_teams :: "string option list"

text \<open>The answer of a remote call: a value, or an exception.\<close>

datatype 'a api_result = ApiOk 'a | ApiError

text \<open>
  What \<open>repos.getContent\<close> and the YAML parser give \<open>loadConfig\<close>: the parsed document of a
  file, something that is not a file, a 404, or any other exception (a syntax error of the
  document included).
\<close>

datatype config_fetch = FileContent jsval | NotAFile | NotFound | FetchFailed

text \<open>The answer to \<open>pulls.requestReviewers\<close>: done, rejected with status 422, or another exception.\<close>

datatype request_result = Requested | Status422 | RequestFailed

datatype conclusion = Success | Failure | Neutral | Skipped

text \<open>
  Everything outside the program that one run reads: the action's inputs, the event, and the
  answer of each remote call the run can make.
\<close>

record World =
  inputs :: Inputs
  eventName :: string
  action :: "string option"
  removedLabel :: "string option"
  pull_request :: "PullRequest option"
  configFetch :: config_fetch
  pullsGet :: "string option list api_result"
  listReviews :: "Review list api_result"
  listMembersInOrg :: "teamref \<Rightarrow> string option list api_result"
  requestReviewers :: "teamref list \<Rightarrow> request_result"
  removeRequestedReviewers :: "teamref \<Rightarrow> unit api_result"
  checksCreate :: "conclusion \<Rightarrow> unit api_result"

text \<open>The log lines and summaries of the program, each with the values it interpolates.\<close>

datatype message =
    MsgNoToken
  | MsgNotPullRequest
  | MsgNoHeadSha
  | MsgFailedToLoadConfig
  | MsgNoConfiguration
  | MsgNoConfig
  | MsgConfigUnexpectedFormat
  | MsgConfigNotFound
  | MsgDraft
  | MsgNoLabels
  | MsgMissingApprovals
  | MsgAllSatisfied
  | MsgDryRunWouldRequest "teamref list"
  | MsgRequestedTeams "teamref list"
  | MsgMayAlreadyExist
  | MsgFailedEnsuring
  | MsgDryRunWouldRemove teamref
  | MsgRemovedTeam teamref string
  | MsgFailedToRemove teamref
  | MsgCouldNotListMembers teamref
  | MsgFetchedMembers nat teamref
  | MsgCouldNotRefresh
  | MsgNoMappedTeam string
  | MsgLabelNotFound string
  | MsgCheckRunFailed
  | MsgUnhandled

text \<open>What a run does to the outside, in order: log lines, outputs and remote calls.\<close>

datatype effect =
    Info message
  | Warning message
  | SetFailed message
  | SetOutput string string
  | CallGetContent
  | CallPullsGet
  | CallListReviews
  | CallListMembers teamref
  | CallRequestReviewers "teamref list"
  | CallRemoveRequestedReviewers teamref
  | CallChecksCreate conclusion message

section \<open>Loading the configuration\<close>

datatype load_error = Invalid config_error | Missing | Other

text \<open>
  \<open>loadConfig\<close> returns the configuration, or \<open>null\<close>, or throws. The choice of the ref
  the file is read from is not part of the model; an error that \<open>validateConfig\<close> throws
  has no status 404 and leaves \<open>loadConfig\<close> as it is.
\<close>

definition loadConfig :: "World \<Rightarrow> (load_error + LabelConfig option) \<times> effect list" where
  "loadConfig w =
     (case configFetch w of
        FileContent parsed \<Rightarrow>
          (case validateConfig parsed of
             Inl e \<Rightarrow> (Inl (Invalid e), [CallGetContent])
           | Inr config \<Rightarrow> (Inr (Some config), [CallGetContent]))
      | NotAFile \<Rightarrow> (Inr None, [CallGetContent, Warning MsgConfigUnexpectedFormat])
      | NotFound \<Rightarrow>
          if failOnMissingConfig (inputs w) then (Inl Missing, [CallGetContent])
          else (Inr None, [CallGetContent, Warning MsgConfigNotFound])
      | FetchFailed \<Rightarrow> (Inl Other, [CallGetContent]))"

section \<open>Reading the dictionaries\<close>

text \<open>\<open>config.labels[k]\<close>; \<open>None\<close> is \<open>undefined\<close>.\<close>

definition readLabel :: "LabelConfig \<Rightarrow> string \<Rightarrow> teamref option" where
  "readLabel config k =
     (case labels config k of
        Some slug \<Rightarrow> Some (Slug slug)
      | None \<Rightarrow> if k \<in> set objectPrototypeKeys then Some (Inherited k) else None)"

text \<open>\<open>!teamSlug\<close>: of the values a read gives, only the empty string is falsy.\<close>

definition falsy :: "teamref \<Rightarrow> bool" where
  "falsy t = (t = Slug [])"

text \<open>
  What \<open>cache[teamSlug]\<close> gives when it is truthy: a member set stored by an earlier call,
  or the value inherited under that name, which is not a \<open>Set\<close>.
\<close>

datatype members = Members "string set" | NotASet string

definition readCache :: "(string \<rightharpoonup> string set) \<Rightarrow> string \<Rightarrow> members option" where
  "readCache cache key =
     (case cache key of
        Some s \<Rightarrow> Some (Members s)
      | None \<Rightarrow> if key \<in> set objectPrototypeKeys then Some (NotASet key) else None)"

section \<open>Team membership\<close>

text \<open>\<open>members.map((m) => m.login).filter(...)\<close>: the logins that are non-empty strings.\<close>

definition logins :: "string option list \<Rightarrow> string list" where
  "logins ms = [l. Some l \<leftarrow> ms, l \<noteq> []]"

text \<open>
  \<open>fetchTeamMembers\<close> returns what it found or listed and leaves the cache updated; here it
  returns that value, the cache and what it did. The cache is written only under a key for
  which \<open>cache[teamSlug]\<close> was falsy, so never under an inherited name.
\<close>

definition fetchTeamMembers ::
  "World \<Rightarrow> teamref \<Rightarrow> (string \<rightharpoonup> string set) \<Rightarrow> members \<times> (string \<rightharpoonup> string set) \<times> effect list" where
  "fetchTeamMembers w teamSlug cache =
     (case readCache cache (propertyKey teamSlug) of
        Some cached \<Rightarrow> (cached, cache, [])
      | None \<Rightarrow>
          (case listMembersInOrg w teamSlug of
             ApiOk ms \<Rightarrow>
               (let s = set (logins ms)
                in (Members s, cache(propertyKey teamSlug \<mapsto> s),
                    CallListMembers teamSlug #
                    (if debug (inputs w) then [Info (MsgFetchedMembers (card s) teamSlug)] else [])))
           | ApiError \<Rightarrow>
               (Members {}, cache(propertyKey teamSlug \<mapsto> {}),
                [CallListMembers teamSlug, Warning (MsgCouldNotListMembers teamSlug)])))"

section \<open>Review requests\<close>

text \<open>\<open>existingRequestedTeamSlugs.has(teamSlug)\<close>: the set holds strings only.\<close>

definition alreadyRequested :: "string set \<Rightarrow> teamref \<Rightarrow> bool" where
  "alreadyRequested existingRequestedTeamSlugs t =
     (case t of Slug s \<Rightarrow> s \<in> existingRequestedTeamSlugs | Inherited k \<Rightarrow> False)"

text \<open>The loop of \<open>ensureTeamReviewRequests\<close> that fills \<open>toRequest\<close>.\<close>

fun toRequest :: "LabelConfig \<Rightarrow> string list \<Rightarrow> string set \<Rightarrow> teamref list" where
  "toRequest config [] existingRequestedTeamSlugs = []"
| "toRequest config (d # ds) existingRequestedTeamSlugs =
     (case readLabel config d of
        None \<Rightarrow> toRequest config ds existingRequestedTeamSlugs
      | Some teamSlug \<Rightarrow>
          if falsy teamSlug then toRequest config ds existingRequestedTeamSlugs
          else if alreadyRequested existingRequestedTeamSlugs teamSlug
          then toRequest config ds existingRequestedTeamSlugs
          else teamSlug # toRequest config ds existingRequestedTeamSlugs)"

text \<open>The effects of the call, and whether it ends by throwing.\<close>

definition ensureTeamReviewRequests ::
  "World \<Rightarrow> LabelConfig \<Rightarrow> string list \<Rightarrow> string set \<Rightarrow> effect list \<times> bool" where
  "ensureTeamReviewRequests w config presentDomains existingRequestedTeamSlugs =
     (let ts = toRequest config presentDomains existingRequestedTeamSlugs
      in if ts = [] then ([], False)
         else if dryRun (inputs w) then ([Info (MsgDryRunWouldRequest ts)], False)
         else
           (case requestReviewers w ts of
              Requested \<Rightarrow> ([CallRequestReviewers ts, Info (MsgRequestedTeams ts)], False)
            | Status422 \<Rightarrow> ([CallRequestReviewers ts, Warning MsgMayAlreadyExist], False)
            | RequestFailed \<Rightarrow> ([CallRequestReviewers ts], True)))"

text \<open>
  \<open>removedLabelName in config.labels\<close> holds for an own key and for an inherited name, and
  \<open>config.labels[removedLabelName]\<close> is then read.
\<close>

definition maybeRetractOnUnlabeled :: "World \<Rightarrow> LabelConfig \<Rightarrow> effect list" where
  "maybeRetractOnUnlabeled w config =
     (if \<not> retractOnUnlabeled config then []
      else if eventName w \<noteq> ''pull_request'' \<and> eventName w \<noteq> ''pull_request_target'' then []
      else if action w \<noteq> Some ''unlabeled'' then []
      else
        (case removedLabel w of
           None \<Rightarrow> []
         | Some removedLabelName \<Rightarrow>
             if removedLabelName = [] then []
             else
               (case readLabel config removedLabelName of
                  None \<Rightarrow> []
                | Some teamSlug \<Rightarrow>
                    if falsy teamSlug then []
                    else if dryRun (inputs w) then [Info (MsgDryRunWouldRemove teamSlug)]
                    else
                      (case removeRequestedReviewers w teamSlug of
                         ApiOk u \<Rightarrow>
                           [CallRemoveRequestedReviewers teamSlug,
                            Info (MsgRemovedTeam teamSlug removedLabelName)]
                       | ApiError \<Rightarrow>
                           [CallRemoveRequestedReviewers teamSlug,
                            Warning (MsgFailedToRemove teamSlug)]))))"

text \<open>
  \<open>createCheckRun\<close>, called by \<open>run\<close> with a head SHA that \<open>run\<close> has already found
  present. The body text of the check run is not part of the model.
\<close>

definition createCheckRun :: "World \<Rightarrow> conclusion \<Rightarrow> message \<Rightarrow> effect list" where
  "createCheckRun w c summary =
     (case checksCreate w c of
        ApiOk u \<Rightarrow> [CallChecksCreate c summary]
      | ApiError \<Rightarrow> [CallChecksCreate c summary, Warning MsgCheckRunFailed])"

section \<open>Evaluation\<close>

record EvaluatedDomain =
  domainKey :: string
  teamSlug :: teamref
  labelName :: string
  approvals :: nat
  required :: jsnum
  satisfied :: bool
  approvers :: "string list"

text \<open>\<open>config.overrides?.[domainKey]?.requiredApprovals\<close>\<close>

definition overrideRequired :: "LabelConfig \<Rightarrow> string \<Rightarrow> jsnum option" where
  "overrideRequired config k =
     (case overrides config of
        None \<Rightarrow> None
      | Some ov \<Rightarrow> (case ov k of None \<Rightarrow> None | Some spec \<Rightarrow> spec))"

text \<open>\<open>overrideRequired ?? config.requiredApprovals ?? 1\<close>\<close>

definition requiredFor :: "LabelConfig \<Rightarrow> string \<Rightarrow> jsnum" where
  "requiredFor config k =
     (case overrideRequired config k of
        Some r \<Rightarrow> r
      | None \<Rightarrow> (case requiredApprovals config of Some r \<Rightarrow> r | None \<Rightarrow> Fin 1))"

text \<open>
  The loop that fills \<open>approvers\<close>. \<open>members.has(user)\<close> on a value that is not a \<open>Set\<close>
  throws a \<open>TypeError\<close>, at the first approved user; \<open>None\<close> is that exception.
\<close>

definition approversOf :: "members \<Rightarrow> string list \<Rightarrow> string list option" where
  "approversOf ms approvedUsers =
     (case ms of
        Members s \<Rightarrow> Some (filter (\<lambda>user. user \<in> s) approvedUsers)
      | NotASet k \<Rightarrow> if approvedUsers = [] then Some [] else None)"

text \<open>
  The outcome of the loop of \<open>run\<close> over \<open>extraction.domains\<close>: the evaluations pushed and
  the effects, or the effects up to an exception.
\<close>

datatype loop_result = Done "EvaluatedDomain list" "effect list" | Threw "effect list"

text \<open>An iteration's effects and evaluations, followed by the rest of the loop.\<close>

fun followedBy :: "effect list \<Rightarrow> EvaluatedDomain list \<Rightarrow> loop_result \<Rightarrow> loop_result" where
  "followedBy fx es (Done es' fx') = Done (es @ es') (fx @ fx')"
| "followedBy fx es (Threw fx') = Threw (fx @ fx')"

text \<open>The loop; it threads the member cache through the iterations.\<close>

fun evaluateDomains ::
  "World \<Rightarrow> LabelConfig \<Rightarrow> (string \<times> string) list \<Rightarrow> string list \<Rightarrow> string list \<Rightarrow>
     (string \<rightharpoonup> string set) \<Rightarrow> loop_result" where
  "evaluateDomains w config dlm approvedUsers [] cache = Done [] []"
| "evaluateDomains w config dlm approvedUsers (k # ks) cache =
     (case readLabel config k of
        None \<Rightarrow>
          followedBy [Warning (MsgNoMappedTeam k)] []
            (evaluateDomains w config dlm approvedUsers ks cache)
      | Some slug \<Rightarrow>
          if falsy slug then
            followedBy [Warning (MsgNoMappedTeam k)] []
              (evaluateDomains w config dlm approvedUsers ks cache)
          else
            (case map_of dlm k of
               None \<Rightarrow>
                 followedBy [Warning (MsgLabelNotFound k)] []
                   (evaluateDomains w config dlm approvedUsers ks cache)
             | Some resolvedLabelName \<Rightarrow>
                 if resolvedLabelName = [] then
                   followedBy [Warning (MsgLabelNotFound k)] []
                     (evaluateDomains w config dlm approvedUsers ks cache)
                 else
                   (case fetchTeamMembers w slug cache of
                      (ms, cache', fx1) \<Rightarrow>
                        (case approversOf ms approvedUsers of
                           None \<Rightarrow> Threw fx1
                         | Some as \<Rightarrow>
                             followedBy fx1
                               [\<lparr> domainKey = k,
                                  teamSlug = slug,
                                  labelName = resolvedLabelName,
                                  approvals = length as,
                                  required = requiredFor config k,
                                  satisfied = count_ge (length as) (requiredFor config k),
                                  approvers = as \<rparr>]
                               (evaluateDomains w config dlm approvedUsers ks cache')))))"

section \<open>The run\<close>

record RunResult =
  trace :: "effect list"
  evaluations :: "EvaluatedDomain list"

definition stop :: "effect list \<Rightarrow> RunResult" where
  "stop fx = \<lparr> trace = fx, evaluations = [] \<rparr>"

text \<open>\<open>existingRequestedTeamSlugs\<close>: the slugs that are non-empty strings.\<close>

definition slugs :: "string option list \<Rightarrow> string set" where
  "slugs teams = set [t. Some t \<leftarrow> teams, t \<noteq> []]"

text \<open>The refetch of the PR: the teams whose slugs are read, and the effects.\<close>

definition refreshPR :: "World \<Rightarrow> PullRequest \<Rightarrow> string option list \<times> effect list" where
  "refreshPR w pr =
     (case pullsGet w of
        ApiOk teams \<Rightarrow> (teams, [CallPullsGet])
      | ApiError \<Rightarrow> (requested_teams pr, [CallPullsGet, Warning MsgCouldNotRefresh]))"

text \<open>
  The end of \<open>run\<close>, after the loop: the check run, the outputs and the last log line.
\<close>

definition report :: "World \<Rightarrow> EvaluatedDomain list \<Rightarrow> effect list" where
  "report w evals =
     (let missing = map domainKey (filter (\<lambda>e. \<not> satisfied e) evals);
          anyFailure = (missing \<noteq> []);
          summary = (if anyFailure then MsgMissingApprovals else MsgAllSatisfied)
      in createCheckRun w (if anyFailure then Failure else Success) summary
         @ [SetOutput ''status'' (if anyFailure then ''failure'' else ''success''),
            SetOutput ''required_labels'' (join '','' (map domainKey evals)),
            SetOutput ''missing_approvals'' (join '','' missing)]
         @ [if anyFailure then SetFailed summary else Info summary])"

text \<open>
  \<open>run\<close> from the point where the configuration is loaded. An exception that leaves
  \<open>run\<close> is caught by its caller, which calls \<open>setFailed\<close> with the exception's message.
\<close>

definition runWithConfig :: "World \<Rightarrow> PullRequest \<Rightarrow> LabelConfig \<Rightarrow> RunResult" where
  "runWithConfig w pr config =
     (let fx_retract = maybeRetractOnUnlabeled w config
      in if ignoreDraft config \<and> draft pr then
           stop (fx_retract @ [Info MsgDraft] @ createCheckRun w Skipped MsgDraft
                 @ [SetOutput ''status'' ''skipped''])
         else
           (let extraction = extractDomainLabels config (pr_labels pr);
                (teams, fx_refresh) = refreshPR w pr;
                (fx_req, threw) =
                  ensureTeamReviewRequests w config (domains extraction) (slugs teams);
                fx_ensure = fx_req @ (if threw then [Warning MsgFailedEnsuring] else []);
                fx0 = fx_retract @ fx_refresh @ fx_ensure
            in if domains extraction = [] then
                 stop (fx0 @ [Info MsgNoLabels] @ createCheckRun w Success MsgNoLabels
                       @ [SetOutput ''status'' ''success'',
                          SetOutput ''required_labels'' [],
                          SetOutput ''missing_approvals'' []])
               else
                 (case listReviews w of
                    ApiError \<Rightarrow> stop (fx0 @ [CallListReviews, SetFailed MsgUnhandled])
                  | ApiOk allReviews \<Rightarrow>
                      (case evaluateDomains w config (domainLabelMap extraction)
                              (fst (getApprovalsByUser allReviews)) (domains extraction) Map.empty of
                         Threw fx_eval \<Rightarrow>
                           stop (fx0 @ [CallListReviews] @ fx_eval @ [SetFailed MsgUnhandled])
                       | Done evals fx_eval \<Rightarrow>
                           \<lparr> trace = fx0 @ [CallListReviews] @ fx_eval @ report w evals,
                             evaluations = evals \<rparr>))))"

definition run :: "World \<Rightarrow> RunResult" where
  "run w =
     (if token (inputs w) = [] then stop [SetFailed MsgNoToken]
      else
        (case pull_request w of
           None \<Rightarrow> stop [Info MsgNotPullRequest, SetOutput ''status'' ''skipped'']
         | Some pr \<Rightarrow>
             if head_sha pr = None \<or> head_sha pr = Some [] then stop [SetFailed MsgNoHeadSha]
             else
               (case loadConfig w of
                  (Inl err, fx) \<Rightarrow> stop (fx @ [SetFailed MsgFailedToLoadConfig])
                | (Inr None, fx) \<Rightarrow>
                    stop (fx @ [Info MsgNoConfiguration, SetOutput ''status'' ''skipped'']
                          @ createCheckRun w Skipped MsgNoConfig)
                | (Inr (Some config), fx) \<Rightarrow>
                    (let r = runWithConfig w pr config
                     in r\<lparr> trace := fx @ trace r \<rparr>))))"

text \<open>The value a run leaves in an output: that of the last \<open>setOutput\<close> with that name.\<close>

fun outputValue :: "string \<Rightarrow> effect list \<Rightarrow> string option" where
  "outputValue name [] = None"
| "outputValue name (SetOutput n v # fx) =
     (case outputValue name fx of Some v' \<Rightarrow> Some v' | None \<Rightarrow> if n = name then Some v else None)"
| "outputValue name (e # fx) = outputValue name fx"

section \<open>Reference definitions\<close>

text \<open>
  The definitions of this section are not taken from the program: they say in the
  specification's words what the program is compared with.
\<close>

text \<open>
  The elements of a sequence ordered by first occurrence, each once: an element is kept
  when it has not been seen before.
\<close>

fun firstSeenFrom :: "'a set \<Rightarrow> 'a list \<Rightarrow> 'a list" where
  "firstSeenFrom seen [] = []"
| "firstSeenFrom seen (x # xs) =
     (if x \<in> seen then firstSeenFrom seen xs else x # firstSeenFrom (insert x seen) xs)"

definition firstSeen :: "'a list \<Rightarrow> 'a list" where
  "firstSeen xs = firstSeenFrom {} xs"

text \<open>The non-empty label names of the PR that are configured keys, in the order of the labels.\<close>

definition matchingNames :: "LabelConfig \<Rightarrow> string option list \<Rightarrow> string list" where
  "matchingNames config prLabels =
     [name. Some name \<leftarrow> prLabels, name \<noteq> [], labels config name \<noteq> None]"

text \<open>
  The review state reducer in the specification's words. The events of a user are the reviews
  that carry a login; the reduction is a left fold over them in delivery order: the first
  event of a user is stored, and a later one replaces the stored one when its timestamp is
  greater than or equal to the stored one, an absent timestamp counting as epoch 0.
\<close>

definition userEvents :: "Review list \<Rightarrow> (string \<times> ReviewInfo) list" where
  "userEvents rs =
     List.map_filter
       (\<lambda>r. case login r of
               None \<Rightarrow> None
             | Some l \<Rightarrow> if l = [] then None else Some (l, info_of r)) rs"

definition stampOrEpoch :: "ReviewInfo \<Rightarrow> int" where
  "stampOrEpoch i = (case info_submitted_at i of Some ms \<Rightarrow> ms | None \<Rightarrow> 0)"

definition latestWins :: "string \<times> ReviewInfo \<Rightarrow> (string \<rightharpoonup> ReviewInfo) \<Rightarrow> (string \<rightharpoonup> ReviewInfo)" where
  "latestWins ev m =
     (case m (fst ev) of
        None \<Rightarrow> m(fst ev \<mapsto> snd ev)
      | Some stored \<Rightarrow>
          if stampOrEpoch (snd ev) \<ge> stampOrEpoch stored then m(fst ev \<mapsto> snd ev) else m)"

definition finalStates :: "Review list \<Rightarrow> (string \<rightharpoonup> ReviewInfo)" where
  "finalStates rs = fold latestWins (userEvents rs) Map.empty"

text \<open>
  The member set a team resolves to in a run: the logins listed for it, and no member when
  the listing fails.
\<close>

definition resolvedMembers :: "World \<Rightarrow> teamref \<Rightarrow> string set" where
  "resolvedMembers w t =
     (case listMembersInOrg w t of
        ApiOk ms \<Rightarrow> set (logins ms)
      | ApiError \<Rightarrow> {})"





text \<open>The conditions under which a run goes on to evaluate the PR with an accepted configuration.\<close>

definition evaluates :: "World \<Rightarrow> PullRequest \<Rightarrow> LabelConfig \<Rightarrow> bool" where
  "evaluates w pr config =
     (token (inputs w) \<noteq> [] \<and> pull_request w = Some pr
      \<and> head_sha pr \<noteq> None \<and> head_sha pr \<noteq> Some []
      \<and> (\<exists>raw. configFetch w = FileContent raw \<and> validateConfig raw = Inr config)
      \<and> \<not> (ignoreDraft config \<and> draft pr))"


text \<open>The evaluations and the effects of an outcome of the loop.\<close>

fun records :: "loop_result \<Rightarrow> EvaluatedDomain list" where
  "records (Done es fx) = es"
| "records (Threw fx) = []"

fun effects :: "loop_result \<Rightarrow> effect list" where
  "effects (Done es fx) = fx"
| "effects (Threw fx) = fx"

fun threw :: "loop_result \<Rightarrow> bool" where
  "threw (Done es fx) = False"
| "threw (Threw fx) = True"

text \<open>
  Scenario A of the specification: the configuration maps \<open>frontend\<close> to \<open>web-platform\<close> and
  \<open>billing\<close> to \<open>finance-eng\<close>, with default 1 and an override of 2 for \<open>billing\<close>; the PR has
  both labels; alice, a member of \<open>web-platform\<close>, and bob, a member of \<open>finance-eng\<close>, have
  approved. Every other team fails to list.
\<close>

definition scenarioDoc :: jsval where
  "scenarioDoc =
     JObj [(''labels'', JObj [(''frontend'', JStr ''web-platform''), (''billing'', JStr ''finance-eng'')]),
           (''requiredApprovals'', JNum (Fin 1)),
           (''overrides'', JObj [(''billing'', JObj [(''requiredApprovals'', JNum (Fin 2))])])]"

definition scenarioConfig :: LabelConfig where
  "scenarioConfig =
     \<lparr> labels = [''frontend'' \<mapsto> ''web-platform'', ''billing'' \<mapsto> ''finance-eng''],
       requiredApprovals = Some (Fin 1),
       overrides = Some [''billing'' \<mapsto> Some (Fin 2)],
       ignoreDraft = True,
       retractOnUnlabeled = True \<rparr>"

definition scenarioPR :: PullRequest where
  "scenarioPR =
     \<lparr> head_sha = Some ''c0ffee'', draft = False,
       pr_labels = [Some ''frontend'', Some ''billing''], requested_teams = [] \<rparr>"

definition scenarioReviews :: "Review list" where
  "scenarioReviews =
     [\<lparr> login = Some ''alice'', state = ''APPROVED'', submitted_at = Some 1000 \<rparr>,
      \<lparr> login = Some ''bob'', state = ''APPROVED'', submitted_at = Some 2000 \<rparr>]"

definition scenarioMembers :: "teamref \<Rightarrow> string option list api_result" where
  "scenarioMembers t =
     (if t = Slug ''web-platform'' then ApiOk [Some ''alice'']
      else if t = Slug ''finance-eng'' then ApiOk [Some ''bob'']
      else ApiError)"

definition scenarioA :: World where
  "scenarioA =
     \<lparr> inputs = \<lparr> token = ''secret'', configPath = ''.github/label-teams.yml'',
                  failOnMissingConfig = True, dryRun = False, debug = False,
                  summaryMode = Standard \<rparr>,
       eventName = ''pull_request'',
       action = Some ''labeled'',
       removedLabel = None,
       pull_request = Some scenarioPR,
       configFetch = FileContent scenarioDoc,
       pullsGet = ApiOk [],
       listReviews = ApiOk scenarioReviews,
       listMembersInOrg = scenarioMembers,
       requestReviewers = (\<lambda>teams. Requested),
       removeRequestedReviewers = (\<lambda>slug. ApiOk ()),
       checksCreate = (\<lambda>c. ApiOk ()) \<rparr>"



text \<open>The event that removes the label \<open>billing\<close>, and the same event on a draft PR.\<close>

definition scenarioUnlabeled :: World where
  "scenarioUnlabeled = scenarioA\<lparr> action := Some ''unlabeled'', removedLabel := Some ''billing'' \<rparr>"

definition scenarioDraft :: World where
  "scenarioDraft =
     scenarioUnlabeled\<lparr> pull_request := Some (scenarioPR\<lparr> draft := True \<rparr>) \<rparr>"

text \<open>
  A configuration whose team for \<open>frontend\<close> has the slug \<open>constructor\<close>, on a PR with that
  label that alice has approved; the team has alice as its member.
\<close>

definition constructorDoc :: jsval where
  "constructorDoc = JObj [(''labels'', JObj [(''frontend'', JStr ''constructor'')])]"

definition constructorConfig :: LabelConfig where
  "constructorConfig =
     \<lparr> labels = [''frontend'' \<mapsto> ''constructor''],
       requiredApprovals = Some (Fin 1),
       overrides = Some Map.empty,
       ignoreDraft = True,
       retractOnUnlabeled = True \<rparr>"

definition constructorPR :: PullRequest where
  "constructorPR =
     \<lparr> head_sha = Some ''c0ffee'', draft = False,
       pr_labels = [Some ''frontend''], requested_teams = [] \<rparr>"

definition constructorTeam :: World where
  "constructorTeam =
     scenarioA\<lparr> pull_request := Some constructorPR,
                configFetch := FileContent constructorDoc,
                pullsGet := ApiOk [Some ''constructor''],
                listReviews :=
                  ApiOk [\<lparr> login = Some ''alice'', state = ''APPROVED'', submitted_at = Some 1000 \<rparr>],
                listMembersInOrg := (\<lambda>t. ApiOk [Some ''alice'']) \<rparr>"

text \<open>
  The event that removes a label named \<open>constructor\<close>, which Scenario A does not configure;
  the removal of a requested team succeeds for a team slug and fails for any other value.
\<close>

definition constructorUnlabeled :: World where
  "constructorUnlabeled =
     scenarioA\<lparr> action := Some ''unlabeled'', removedLabel := Some ''constructor'',
                removeRequestedReviewers :=
                  (\<lambda>t. case t of Slug s \<Rightarrow> ApiOk () | Inherited k \<Rightarrow> ApiError) \<rparr>"

text \<open>
  A configuration document whose only label is \<open>__proto__\<close>, written between blanks, and
  the policy that \<open>validateConfig\<close> returns for it.
\<close>

definition protoDoc :: jsval where
  "protoDoc = JObj [(''labels'', JObj [('' __proto__ '', JStr ''platform-team'')])]"

definition protoConfig :: LabelConfig where
  "protoConfig =
     \<lparr> labels = Map.empty,
       requiredApprovals = Some (Fin 1),
       overrides = Some Map.empty,
       ignoreDraft = True,
       retractOnUnlabeled = True \<rparr>"

text \<open>What \<open>fetchTeamMembers\<close> logs after the listing of a team has been attempted.\<close>

definition listingLog :: "World \<Rightarrow> teamref \<Rightarrow> effect list" where
  "listingLog w t =
     (case listMembersInOrg w t of
        ApiOk ms \<Rightarrow>
          if debug (inputs w) then [Info (MsgFetchedMembers (card (set (logins ms))) t)] else []
      | ApiError \<Rightarrow> [Warning (MsgCouldNotListMembers t)])"

text \<open>
  The effects of a run that is not skipped as a draft, from the retraction to the request of
  the missing teams.
\<close>

definition prelude :: "World \<Rightarrow> PullRequest \<Rightarrow> LabelConfig \<Rightarrow> effect list" where
  "prelude w pr config =
     maybeRetractOnUnlabeled w config @ snd (refreshPR w pr)
     @ fst (ensureTeamReviewRequests w config (domains (extractDomainLabels config (pr_labels pr)))
              (slugs (fst (refreshPR w pr))))
     @ (if snd (ensureTeamReviewRequests w config (domains (extractDomainLabels config (pr_labels pr)))
              (slugs (fst (refreshPR w pr))))
        then [Warning MsgFailedEnsuring] else [])"

text \<open>The loop of a run, on the matched domains and the approved users of the reviews.\<close>

definition runLoop :: "World \<Rightarrow> PullRequest \<Rightarrow> LabelConfig \<Rightarrow> Review list \<Rightarrow> loop_result" where
  "runLoop w pr config rs =
     evaluateDomains w config (domainLabelMap (extractDomainLabels config (pr_labels pr)))
       (fst (getApprovalsByUser rs)) (domains (extractDomainLabels config (pr_labels pr))) Map.empty"

section \<open>Properties of configuration validation\<close>

lemma floor_five_halves: "\<lfloor>5 / 2 :: rat\<rfloor> = 2"
  by (simp add: floor_eq_iff)

text \<open>
  A top-level \<open>requiredApprovals\<close> that is not a number, or is below 1, does not make
  validation fail: the documents below, with the string \<open>two\<close> and with the number 0, are
  accepted and the policy's default is 1.
\<close>

theorem requiredApprovals_invalid_accepted:
  "\<not> isl (validateConfig (JObj [(''labels'', JObj [(''frontend'', JStr ''web-platform'')]),
                                 (''requiredApprovals'', JStr ''two'')]))
   \<and> requiredApprovals (projr (validateConfig (JObj [(''labels'', JObj [(''frontend'', JStr ''web-platform'')]),
                                 (''requiredApprovals'', JStr ''two'')]))) = Some (Fin 1)
   \<and> \<not> isl (validateConfig (JObj [(''labels'', JObj [(''frontend'', JStr ''web-platform'')]),
                                 (''requiredApprovals'', JNum (Fin 0))]))
   \<and> requiredApprovals (projr (validateConfig (JObj [(''labels'', JObj [(''frontend'', JStr ''web-platform'')]),
                                 (''requiredApprovals'', JNum (Fin 0))]))) = Some (Fin 1)"
  by (simp add: validateConfig_def trim_def is_ws_def topRequiredApprovals_def boolOrTrue_def)

text \<open>
  C3, as the code has it. The top-level \<open>requiredApprovals\<close> never decides whether validation
  fails: a document with the field, whatever its value, is rejected exactly when the document
  without it is. In an accepted document the policy's default is the floor of the field when
  the field is a number that is at least 1, and 1 in every other case: the field absent, not
  a number, NaN, or below 1.
\<close>

theorem requiredApprovals_default:
  "isl (validateConfig (JObj ((''requiredApprovals'', v) # es))) = isl (validateConfig (JObj es))
   \<and> (validateConfig raw = Inr cfg \<longrightarrow>
        requiredApprovals cfg =
          Some (case get_prop raw ''requiredApprovals'' of
                  JNum (Fin q) \<Rightarrow> if 1 \<le> q then Fin (of_int \<lfloor>q\<rfloor>) else Fin 1
                | JNum PosInf \<Rightarrow> PosInf
                | _ \<Rightarrow> Fin 1))"
proof
  show "isl (validateConfig (JObj ((''requiredApprovals'', v) # es))) = isl (validateConfig (JObj es))"
    by (simp add: validateConfig_def Let_def split: sum.splits)
next
  show "validateConfig raw = Inr cfg \<longrightarrow>
        requiredApprovals cfg =
          Some (case get_prop raw ''requiredApprovals'' of
                  JNum (Fin q) \<Rightarrow> if 1 \<le> q then Fin (of_int \<lfloor>q\<rfloor>) else Fin 1
                | JNum PosInf \<Rightarrow> PosInf
                | _ \<Rightarrow> Fin 1)"
    by (auto simp: validateConfig_def Let_def topRequiredApprovals_def
             split: sum.splits if_splits jsval.splits jsnum.splits)
qed

text \<open>
  The theorem at a document whose \<open>requiredApprovals\<close> is 2.5: it is accepted with the
  default 2, and the same document with \<open>requiredApprovals: null\<close> is accepted too.
\<close>

theorem requiredApprovals_default_witness:
  "validateConfig (JObj [(''requiredApprovals'', JNum (Fin (5/2))),
                         (''labels'', JObj [(''frontend'', JStr '' web-platform '')])])
     = Inr \<lparr> labels = [''frontend'' \<mapsto> ''web-platform''], requiredApprovals = Some (Fin 2),
              overrides = Some Map.empty, ignoreDraft = True, retractOnUnlabeled = True \<rparr>
   \<and> requiredApprovals \<lparr> labels = [''frontend'' \<mapsto> ''web-platform''], requiredApprovals = Some (Fin 2),
              overrides = Some Map.empty, ignoreDraft = True, retractOnUnlabeled = True \<rparr> = Some (Fin 2)
   \<and> \<not> isl (validateConfig (JObj [(''requiredApprovals'', JNull),
                                   (''labels'', JObj [(''frontend'', JStr '' web-platform '')])]))"
proof -
  let ?raw = "JObj [(''requiredApprovals'', JNum (Fin (5/2))),
                    (''labels'', JObj [(''frontend'', JStr '' web-platform '')])]"
  let ?cfg = "\<lparr> labels = [''frontend'' \<mapsto> ''web-platform''], requiredApprovals = Some (Fin 2),
                overrides = Some Map.empty, ignoreDraft = True, retractOnUnlabeled = True \<rparr>"
  have h: "validateConfig ?raw = Inr ?cfg"
    by (simp add: validateConfig_def trim_def is_ws_def topRequiredApprovals_def boolOrTrue_def
                  floor_five_halves)
  have e: "\<not> isl (validateConfig (JObj [(''labels'', JObj [(''frontend'', JStr '' web-platform '')])]))"
    by (simp add: validateConfig_def trim_def is_ws_def topRequiredApprovals_def boolOrTrue_def)
  from requiredApprovals_default
         [of JNull "[(''labels'', JObj [(''frontend'', JStr '' web-platform '')])]" ?raw ?cfg] h e
  show ?thesis by (simp add: floor_five_halves)
qed

section \<open>Properties of the label matcher\<close>

lemma set_firstSeenFrom: "set (firstSeenFrom seen xs) = set xs - seen"
  by (induction xs arbitrary: seen) auto

lemma distinct_firstSeenFrom: "distinct (firstSeenFrom seen xs)"
  by (induction xs arbitrary: seen) (auto simp: set_firstSeenFrom)

lemma set_update_sub: "set (AList.update k v al) \<subseteq> insert (k, v) (set al)"
  by (induction al) auto

lemma diag_labelStep:
  assumes "\<forall>p \<in> set m. fst p = snd p"
  shows "\<forall>p \<in> set (labelStep config l m). fst p = snd p"
proof (cases "\<exists>name. l = Some name \<and> name \<noteq> [] \<and> labels config name \<noteq> None")
  case True
  then obtain name where "labelStep config l m = AList.update name name m"
    by (auto simp: labelStep_def)
  then show ?thesis
    using assms set_update_sub[of name name m] by auto
next
  case False
  then have "labelStep config l m = m"
    by (auto simp: labelStep_def split: option.splits)
  then show ?thesis using assms by simp
qed

lemma fold_labelStep_diag:
  "\<forall>p \<in> set m. fst p = snd p \<Longrightarrow> \<forall>p \<in> set (fold (labelStep config) ls m). fst p = snd p"
proof (induction ls arbitrary: m)
  case Nil
  then show ?case by simp
next
  case (Cons l ls)
  show ?case using Cons.IH[OF diag_labelStep[OF Cons.prems]] by simp
qed

lemma diag_map: "\<forall>p \<in> set m. fst p = snd p \<Longrightarrow> m = map (\<lambda>k. (k, k)) (map fst m)"
  by (induction m) auto

lemma keys_fold_labelStep:
  "map fst (fold (labelStep config) ls m)
     = map fst m @ firstSeenFrom (set (map fst m)) (matchingNames config ls)"
proof (induction ls arbitrary: m)
  case Nil
  then show ?case by (simp add: matchingNames_def)
next
  case (Cons l ls)
  show ?case
  proof (cases "\<exists>name. l = Some name \<and> name \<noteq> [] \<and> labels config name \<noteq> None")
    case True
    then obtain name where l: "l = Some name" "name \<noteq> []" "labels config name \<noteq> None"
      by blast
    have step: "labelStep config l m = AList.update name name m"
      using l by (simp add: labelStep_def)
    have mn: "matchingNames config (l # ls) = name # matchingNames config ls"
      using l by (simp add: matchingNames_def)
    show ?thesis
      unfolding mn using Cons.IH[of "AList.update name name m"] step
      by (auto simp: update_keys)
  next
    case False
    then have step: "labelStep config l m = m"
      by (auto simp: labelStep_def split: option.splits)
    have mn: "matchingNames config (l # ls) = matchingNames config ls"
      using False by (cases l) (auto simp: matchingNames_def)
    show ?thesis unfolding mn using Cons.IH[of m] step by simp
  qed
qed

lemma set_matchingNames:
  "set (matchingNames config ls) = {k. k \<noteq> [] \<and> Some k \<in> set ls \<and> k \<in> dom (labels config)}"
  by (induction ls) (auto simp: matchingNames_def split: option.splits)


text \<open>
  A configuration whose only key is a blank has the empty string as its domain key. A PR
  label with the empty name equals that key, and the matcher does not return it.
\<close>

theorem empty_label_name_not_matched:
  "labels (projr (validateConfig (JObj [(''labels'', JObj [('' '', JStr ''team'')])]))) [] = Some ''team''
   \<and> domains (extractDomainLabels
                (projr (validateConfig (JObj [(''labels'', JObj [('' '', JStr ''team'')])])))
                [Some []]) = []"
  by (simp add: validateConfig_def trim_def is_ws_def topRequiredApprovals_def boolOrTrue_def
                extractDomainLabels_def labelStep_def)

text \<open>
  C5, as the code has it. The matcher returns the configured keys that equal the name of
  some PR label whose name is present and not empty, ordered by first occurrence in the label
  sequence, each once; a label without a name or with the empty name is skipped. The map
  returned with them sends each key to itself. The function is total: the empty result is an
  ordinary value.
\<close>

theorem extractDomainLabels_first_seen:
  "domains (extractDomainLabels config prLabels) = firstSeen (matchingNames config prLabels)
   \<and> distinct (domains (extractDomainLabels config prLabels))
   \<and> set (domains (extractDomainLabels config prLabels))
       = {k. k \<noteq> [] \<and> Some k \<in> set prLabels \<and> k \<in> dom (labels config)}
   \<and> domainLabelMap (extractDomainLabels config prLabels)
       = map (\<lambda>k. (k, k)) (domains (extractDomainLabels config prLabels))"
proof -
  have d: "domains (extractDomainLabels config prLabels) = firstSeen (matchingNames config prLabels)"
    using keys_fold_labelStep[of config prLabels "[]"]
    by (simp add: extractDomainLabels_def Let_def firstSeen_def)
  have diag: "\<forall>p \<in> set (fold (labelStep config) prLabels []). fst p = snd p"
    by (rule fold_labelStep_diag) simp
  have m: "domainLabelMap (extractDomainLabels config prLabels)
       = map (\<lambda>k. (k, k)) (domains (extractDomainLabels config prLabels))"
    using diag_map[OF diag] by (simp add: extractDomainLabels_def Let_def)
  show ?thesis using d m
    by (simp add: firstSeen_def distinct_firstSeenFrom set_firstSeenFrom set_matchingNames)
qed

text \<open>
  The theorem at Scenario A's configuration and the labels \<open>billing\<close>, \<open>Frontend\<close>,
  \<open>frontend\<close>, \<open>billing\<close>, a label without a name, and \<open>docs\<close>.
\<close>

theorem extractDomainLabels_first_seen_witness:
  "domains (extractDomainLabels
     \<lparr> labels = [''frontend'' \<mapsto> ''web-platform'', ''billing'' \<mapsto> ''finance-eng''],
       requiredApprovals = Some (Fin 1), overrides = Some [''billing'' \<mapsto> Some (Fin 2)],
       ignoreDraft = True, retractOnUnlabeled = True \<rparr>
     [Some ''billing'', Some ''Frontend'', Some ''frontend'', Some ''billing'', None, Some ''docs''])
   = [''billing'', ''frontend'']"
proof -
  let ?cfg = "\<lparr> labels = [''frontend'' \<mapsto> ''web-platform'', ''billing'' \<mapsto> ''finance-eng''],
       requiredApprovals = Some (Fin 1), overrides = Some [''billing'' \<mapsto> Some (Fin 2)],
       ignoreDraft = True, retractOnUnlabeled = True \<rparr>"
  let ?ls = "[Some ''billing'', Some ''Frontend'', Some ''frontend'', Some ''billing'', None, Some ''docs'']"
  from extractDomainLabels_first_seen [of ?cfg ?ls]
  have "domains (extractDomainLabels ?cfg ?ls) = firstSeen (matchingNames ?cfg ?ls)"
    by blast
  then show ?thesis by (simp add: firstSeen_def matchingNames_def)
qed

section \<open>Properties of the review state reducer\<close>

lemma userEvents_Cons:
  "userEvents (r # rs) =
     (case login r of None \<Rightarrow> userEvents rs
      | Some l \<Rightarrow> if l = [] then userEvents rs else (l, info_of r) # userEvents rs)"
  by (simp add: userEvents_def List.map_filter_simps split: option.splits)

lemma reviewStep_distinct:
  "distinct (map fst al) \<Longrightarrow> distinct (map fst (reviewStep r al))"
  by (auto simp: reviewStep_def distinct_update split: option.splits)

lemma fold_reviewStep_distinct:
  "distinct (map fst al) \<Longrightarrow> distinct (map fst (fold reviewStep rs al))"
  by (induction rs arbitrary: al) (simp_all add: reviewStep_distinct)

lemma fold_reviewStep_refines:
  "map_of (fold reviewStep rs al) = fold latestWins (userEvents rs) (map_of al)"
proof (induction rs arbitrary: al)
  case Nil
  then show ?case by (simp add: userEvents_def List.map_filter_simps)
next
  case (Cons r rs)
  show ?case
  proof (cases "\<exists>l. login r = Some l \<and> l \<noteq> []")
    case True
    then obtain l where l: "login r = Some l" "l \<noteq> []" by blast
    have "map_of (reviewStep r al) = latestWins (l, info_of r) (map_of al)"
      using l by (simp add: reviewStep_def latestWins_def stampOrEpoch_def time_of_def info_of_def
                            update_conv' split: option.splits)
    then show ?thesis using l Cons.IH[of "reviewStep r al"] by (simp add: userEvents_Cons)
  next
    case False
    then have "reviewStep r al = al" by (auto simp: reviewStep_def split: option.splits)
    then show ?thesis using False Cons.IH[of al] by (auto simp: userEvents_Cons split: option.splits)
  qed
qed

text \<open>
  C4. The map that \<open>getApprovalsByUser\<close> builds is the left fold, in delivery order, in
  which a user's first event is stored and a later event replaces the stored one exactly when
  its timestamp, with an absent one read as epoch 0, is greater than or equal to the stored
  one. The approved users are, without repetition, exactly the users whose final state in
  that fold is \<open>APPROVED\<close>. (A review without a user login is no user's event.)
\<close>

theorem getApprovalsByUser_latest_wins:
  "map_of (reduceReviews rs) = finalStates rs
   \<and> distinct (map fst (reduceReviews rs))
   \<and> snd (getApprovalsByUser rs) = reduceReviews rs
   \<and> distinct (fst (getApprovalsByUser rs))
   \<and> set (fst (getApprovalsByUser rs))
        = {u. \<exists>i. finalStates rs u = Some i \<and> info_state i = ''APPROVED''}"
proof -
  have m: "map_of (reduceReviews rs) = finalStates rs"
    using fold_reviewStep_refines[of rs "[]"] by (simp add: reduceReviews_def finalStates_def)
  have d: "distinct (map fst (reduceReviews rs))"
    unfolding reduceReviews_def by (rule fold_reviewStep_distinct) simp
  have s: "set (fst (getApprovalsByUser rs))
        = {u. \<exists>i. map_of (reduceReviews rs) u = Some i \<and> info_state i = ''APPROVED''}"
    using d by (auto simp: getApprovalsByUser_def Let_def image_iff)
  have da: "distinct (fst (getApprovalsByUser rs))"
    using d by (simp add: getApprovalsByUser_def Let_def distinct_map_filter)
  show ?thesis using m d s da by (simp add: getApprovalsByUser_def Let_def)
qed

text \<open>
  The theorem at seven reviews: alice's tie at time 5 goes to the later
  \<open>CHANGES_REQUESTED\<close>; bob's later review without a timestamp does not replace his
  approval at time 10; carol's two reviews without timestamps resolve to the later approval.
\<close>

theorem getApprovalsByUser_latest_wins_witness:
  "fst (getApprovalsByUser
     [\<lparr> login = Some ''alice'', state = ''APPROVED'', submitted_at = Some 5 \<rparr>,
      \<lparr> login = Some ''bob'', state = ''APPROVED'', submitted_at = Some 10 \<rparr>,
      \<lparr> login = None, state = ''APPROVED'', submitted_at = Some 11 \<rparr>,
      \<lparr> login = Some ''alice'', state = ''CHANGES_REQUESTED'', submitted_at = Some 5 \<rparr>,
      \<lparr> login = Some ''bob'', state = ''COMMENTED'', submitted_at = None \<rparr>,
      \<lparr> login = Some ''carol'', state = ''COMMENTED'', submitted_at = None \<rparr>,
      \<lparr> login = Some ''carol'', state = ''APPROVED'', submitted_at = None \<rparr>]) = [''bob'', ''carol'']
   \<and> finalStates
     [\<lparr> login = Some ''alice'', state = ''APPROVED'', submitted_at = Some 5 \<rparr>,
      \<lparr> login = Some ''bob'', state = ''APPROVED'', submitted_at = Some 10 \<rparr>,
      \<lparr> login = None, state = ''APPROVED'', submitted_at = Some 11 \<rparr>,
      \<lparr> login = Some ''alice'', state = ''CHANGES_REQUESTED'', submitted_at = Some 5 \<rparr>,
      \<lparr> login = Some ''bob'', state = ''COMMENTED'', submitted_at = None \<rparr>,
      \<lparr> login = Some ''carol'', state = ''COMMENTED'', submitted_at = None \<rparr>,
      \<lparr> login = Some ''carol'', state = ''APPROVED'', submitted_at = None \<rparr>] ''alice''
     = Some \<lparr> info_state = ''CHANGES_REQUESTED'', info_submitted_at = Some 5 \<rparr>"
proof -
  let ?rs = "[\<lparr> login = Some ''alice'', state = ''APPROVED'', submitted_at = Some 5 \<rparr>,
      \<lparr> login = Some ''bob'', state = ''APPROVED'', submitted_at = Some 10 \<rparr>,
      \<lparr> login = None, state = ''APPROVED'', submitted_at = Some 11 \<rparr>,
      \<lparr> login = Some ''alice'', state = ''CHANGES_REQUESTED'', submitted_at = Some 5 \<rparr>,
      \<lparr> login = Some ''bob'', state = ''COMMENTED'', submitted_at = None \<rparr>,
      \<lparr> login = Some ''carol'', state = ''COMMENTED'', submitted_at = None \<rparr>,
      \<lparr> login = Some ''carol'', state = ''APPROVED'', submitted_at = None \<rparr>]"
  have r: "reduceReviews ?rs =
     [(''alice'', \<lparr> info_state = ''CHANGES_REQUESTED'', info_submitted_at = Some 5 \<rparr>),
      (''bob'', \<lparr> info_state = ''APPROVED'', info_submitted_at = Some 10 \<rparr>),
      (''carol'', \<lparr> info_state = ''APPROVED'', info_submitted_at = None \<rparr>)]"
    by (simp add: reduceReviews_def reviewStep_def info_of_def time_of_def)
  have a: "fst (getApprovalsByUser ?rs) = [''bob'', ''carol'']"
    by (simp add: getApprovalsByUser_def r)
  from getApprovalsByUser_latest_wins [of ?rs]
  have "finalStates ?rs = map_of (reduceReviews ?rs)" by simp
  then show ?thesis using a by (simp add: r)
qed

section \<open>The dictionaries and the member cache\<close>

lemma propertyKey_Inherited: "propertyKey (Inherited k) \<notin> set objectPrototypeKeys"
  by (simp add: propertyKey_def objectPrototypeKeys_def)


lemma validateConfig_labels:
  "validateConfig raw = Inr cfg \<Longrightarrow>
     collectLabels (entries (get_prop raw ''labels'')) Map.empty = Inr (labels cfg)"
  by (auto simp: validateConfig_def Let_def split: if_splits sum.splits)

lemma collectLabels_nonempty:
  "collectLabels es acc = Inr m \<Longrightarrow> \<forall>k t. acc k = Some t \<longrightarrow> t \<noteq> []
     \<Longrightarrow> \<forall>k t. m k = Some t \<longrightarrow> t \<noteq> []"
proof (induction es arbitrary: acc)
  case Nil
  then show ?case by simp
next
  case (Cons e es)
  obtain k v where e: "e = (k, v)" by (cases e)
  show ?case
  proof (cases "collectLabels es acc = Inr m")
    case True
    from Cons.IH[OF True Cons.prems(2)] show ?thesis .
  next
    case False
    with Cons.prems(1) e obtain s where ne: "trim s \<noteq> []"
        and rest: "collectLabels es (acc(trim k \<mapsto> trim s)) = Inr m"
      by (auto split: jsval.splits if_splits)
    have "\<forall>k' t. (acc(trim k \<mapsto> trim s)) k' = Some t \<longrightarrow> t \<noteq> []"
      using Cons.prems(2) ne by auto
    from Cons.IH[OF rest this] show ?thesis .
  qed
qed

lemma validated_slug_nonempty:
  "validateConfig raw = Inr config \<Longrightarrow> labels config k = Some t \<Longrightarrow> t \<noteq> []"
  using collectLabels_nonempty[OF validateConfig_labels, of raw config] by auto

lemma fetchTeamMembers_cached:
  "cache (propertyKey t) = Some s \<Longrightarrow> fetchTeamMembers w t cache = (Members s, cache, [])"
  by (simp add: fetchTeamMembers_def readCache_def)

lemma fetchTeamMembers_inherited:
  "cache (propertyKey t) = None \<Longrightarrow> propertyKey t \<in> set objectPrototypeKeys
     \<Longrightarrow> fetchTeamMembers w t cache = (NotASet (propertyKey t), cache, [])"
  by (simp add: fetchTeamMembers_def readCache_def)

lemma fetchTeamMembers_listed:
  "cache (propertyKey t) = None \<Longrightarrow> propertyKey t \<notin> set objectPrototypeKeys
     \<Longrightarrow> fetchTeamMembers w t cache =
        (Members (resolvedMembers w t), cache(propertyKey t \<mapsto> resolvedMembers w t),
         CallListMembers t # listingLog w t)"
  by (simp add: fetchTeamMembers_def readCache_def resolvedMembers_def listingLog_def Let_def
           split: api_result.split)

lemma fetchTeamMembers_cases:
  "(\<exists>s. cache (propertyKey t) = Some s \<and> fetchTeamMembers w t cache = (Members s, cache, []))
   \<or> (cache (propertyKey t) = None \<and> propertyKey t \<in> set objectPrototypeKeys
       \<and> fetchTeamMembers w t cache = (NotASet (propertyKey t), cache, []))
   \<or> (cache (propertyKey t) = None \<and> propertyKey t \<notin> set objectPrototypeKeys
       \<and> fetchTeamMembers w t cache =
        (Members (resolvedMembers w t), cache(propertyKey t \<mapsto> resolvedMembers w t),
         CallListMembers t # listingLog w t))"
proof (cases "cache (propertyKey t)")
  case (Some s)
  have "fetchTeamMembers w t cache = (Members s, cache, [])"
    using Some by (rule fetchTeamMembers_cached)
  then show ?thesis using Some by simp
next
  case None
  show ?thesis
  proof (cases "propertyKey t \<in> set objectPrototypeKeys")
    case True
    have "fetchTeamMembers w t cache = (NotASet (propertyKey t), cache, [])"
      using None True by (rule fetchTeamMembers_inherited)
    then show ?thesis using None True by simp
  next
    case False
    have "fetchTeamMembers w t cache =
        (Members (resolvedMembers w t), cache(propertyKey t \<mapsto> resolvedMembers w t),
         CallListMembers t # listingLog w t)"
      using None False by (rule fetchTeamMembers_listed)
    then show ?thesis using None False by simp
  qed
qed

lemma propertyKey_Slug [simp]: "propertyKey (Slug s) = s"
  by (simp add: propertyKey_def)





lemma fetchTeamMembers_dom:
  "fst (snd (fetchTeamMembers w t cache)) key = None
     \<longleftrightarrow> cache key = None \<and> (key = propertyKey t \<longrightarrow> key \<in> set objectPrototypeKeys)"
  using fetchTeamMembers_cases[of cache t w] by (auto split: if_splits)



section \<open>The evaluation loop\<close>


lemma effects_followedBy [simp]: "effects (followedBy fx es r) = fx @ effects r"
  by (cases r) simp_all

lemma threw_followedBy [simp]: "threw (followedBy fx es r) = threw r"
  by (cases r) simp_all













section \<open>The shape of a run\<close>

lemma outputValue_append:
  "outputValue name (xs @ ys) =
     (case outputValue name ys of Some v \<Rightarrow> Some v | None \<Rightarrow> outputValue name xs)"
proof (induction xs)
  case Nil
  then show ?case by (simp split: option.splits)
next
  case (Cons x xs)
  then show ?case by (cases x) (auto split: option.splits)
qed

lemma outputValue_check [simp]: "outputValue name (createCheckRun w c m) = None"
  by (simp add: createCheckRun_def split: api_result.split)


lemma run_evaluates:
  assumes "evaluates w pr config"
  shows "trace (run w) = CallGetContent # trace (runWithConfig w pr config)"
    and "evaluations (run w) = evaluations (runWithConfig w pr config)"
  using assms
  by (auto simp: evaluates_def run_def loadConfig_def Let_def)

lemma runWithConfig_draft:
  assumes "ignoreDraft config" "draft pr"
  shows "runWithConfig w pr config =
     \<lparr> trace = maybeRetractOnUnlabeled w config @ [Info MsgDraft]
               @ createCheckRun w Skipped MsgDraft @ [SetOutput ''status'' ''skipped''],
       evaluations = [] \<rparr>"
  using assms by (simp add: runWithConfig_def Let_def stop_def)

lemma runWithConfig_cases:
  assumes nd: "\<not> (ignoreDraft config \<and> draft pr)"
  shows "runWithConfig w pr config =
        (if domains (extractDomainLabels config (pr_labels pr)) = [] then
           \<lparr> trace = prelude w pr config @ [Info MsgNoLabels] @ createCheckRun w Success MsgNoLabels
                     @ [SetOutput ''status'' ''success'', SetOutput ''required_labels'' [],
                        SetOutput ''missing_approvals'' []],
             evaluations = [] \<rparr>
         else
           (case listReviews w of
              ApiError \<Rightarrow>
                \<lparr> trace = prelude w pr config @ [CallListReviews, SetFailed MsgUnhandled],
                  evaluations = [] \<rparr>
            | ApiOk rs \<Rightarrow>
                (case runLoop w pr config rs of
                   Threw fx \<Rightarrow>
                     \<lparr> trace = prelude w pr config @ [CallListReviews] @ fx @ [SetFailed MsgUnhandled],
                       evaluations = [] \<rparr>
                 | Done evals fx \<Rightarrow>
                     \<lparr> trace = prelude w pr config @ [CallListReviews] @ fx @ report w evals,
                       evaluations = evals \<rparr>)))"
proof -
  let ?ex = "extractDomainLabels config (pr_labels pr)"
  have nd': "(ignoreDraft config \<and> draft pr) = False" using nd by simp
  obtain teams fxr where rf: "refreshPR w pr = (teams, fxr)" by (cases "refreshPR w pr")
  obtain fxq thr where en: "ensureTeamReviewRequests w config (domains ?ex) (slugs teams) = (fxq, thr)"
    by (cases "ensureTeamReviewRequests w config (domains ?ex) (slugs teams)")
  have en0: "domains ?ex = [] \<Longrightarrow> ensureTeamReviewRequests w config [] (slugs teams) = (fxq, thr)"
    using en by simp
  show ?thesis
    unfolding runWithConfig_def Let_def nd' prelude_def runLoop_def
    by (simp add: rf en en0 stop_def split: api_result.split loop_result.split)
qed

lemma runWithConfig_evaluations:
  "evaluations (runWithConfig w pr config) =
     (if ignoreDraft config \<and> draft pr then []
      else if domains (extractDomainLabels config (pr_labels pr)) = [] then []
      else case listReviews w of
             ApiError \<Rightarrow> []
           | ApiOk rs \<Rightarrow> records (runLoop w pr config rs))"
proof (cases "ignoreDraft config \<and> draft pr")
  case True
  then show ?thesis using runWithConfig_draft[of config pr w] by simp
next
  case False
  then have nd: "(ignoreDraft config \<and> draft pr) = False" by simp
  show ?thesis
    unfolding runWithConfig_cases[OF False] nd
    by (simp split: api_result.split loop_result.split)
qed



lemma retract_no_listing:
  "filter (\<lambda>e. e = CallListMembers s \<or> e = CallListReviews) (maybeRetractOnUnlabeled w config) = []"
  by (simp add: maybeRetractOnUnlabeled_def split: option.split api_result.split)

lemma check_no_listing:
  "filter (\<lambda>e. e = CallListMembers s \<or> e = CallListReviews) (createCheckRun w c m) = []"
  by (simp add: createCheckRun_def split: api_result.split)





lemma listing_absent:
  "filter (\<lambda>e. e = CallListMembers s \<or> e = CallListReviews) xs = []
     \<Longrightarrow> CallListMembers s \<notin> set xs \<and> CallListReviews \<notin> set xs"
  by (auto simp: filter_empty_conv)





section \<open>Properties of the evaluation\<close>







lemma run_records:
  assumes ev: "evaluates w pr config" and rv: "listReviews w = ApiOk rs"
  shows "evaluations (run w) = records (runLoop w pr config rs)"
proof -
  have e: "records (runLoop w pr config rs) = []"
    if "domains (extractDomainLabels config (pr_labels pr)) = []"
    using that by (simp add: runLoop_def)
  from ev have nd: "(ignoreDraft config \<and> draft pr) = False" by (simp add: evaluates_def)
  show ?thesis
    unfolding run_evaluates(2)[OF ev] runWithConfig_evaluations nd rv using e by simp
qed


lemma run_aborts:
  assumes ev: "evaluates w pr config" and rv: "listReviews w = ApiOk rs"
    and th: "threw (runLoop w pr config rs)"
  shows "trace (run w) = CallGetContent # prelude w pr config @ [CallListReviews]
                           @ effects (runLoop w pr config rs) @ [SetFailed MsgUnhandled]"
    and "evaluations (run w) = []"
proof -
  from ev have nd: "\<not> (ignoreDraft config \<and> draft pr)" by (simp add: evaluates_def)
  from th obtain fx where d: "runLoop w pr config rs = Threw fx"
    by (cases "runLoop w pr config rs") simp_all
  have ne: "domains (extractDomainLabels config (pr_labels pr)) \<noteq> []"
    using d by (auto simp: runLoop_def)
  show "trace (run w) = CallGetContent # prelude w pr config @ [CallListReviews]
                           @ effects (runLoop w pr config rs) @ [SetFailed MsgUnhandled]"
    unfolding run_evaluates(1)[OF ev] runWithConfig_cases[OF nd] using ne rv d by simp
  show "evaluations (run w) = []"
    unfolding run_records[OF ev rv] d by simp
qed


lemma constructor_valid: "validateConfig constructorDoc = Inr constructorConfig"
  by (simp add: constructorDoc_def constructorConfig_def validateConfig_def trim_def is_ws_def
                topRequiredApprovals_def boolOrTrue_def)

lemma constructor_evaluates: "evaluates constructorTeam constructorPR constructorConfig"
  using constructor_valid
  by (simp add: evaluates_def constructorTeam_def scenarioA_def constructorPR_def constructorConfig_def)

lemma constructor_domains:
  "extractDomainLabels constructorConfig (pr_labels constructorPR)
     = \<lparr> domains = [''frontend''], domainLabelMap = [(''frontend'', ''frontend'')] \<rparr>"
  by (simp add: extractDomainLabels_def labelStep_def constructorConfig_def constructorPR_def)

lemma constructor_reviews:
  "listReviews constructorTeam
     = ApiOk [\<lparr> login = Some ''alice'', state = ''APPROVED'', submitted_at = Some 1000 \<rparr>]"
  by (simp add: constructorTeam_def scenarioA_def)

lemma constructor_approved:
  "fst (getApprovalsByUser [\<lparr> login = Some ''alice'', state = ''APPROVED'', submitted_at = Some 1000 \<rparr>])
     = [''alice'']"
  by (simp add: getApprovalsByUser_def reduceReviews_def reviewStep_def info_of_def time_of_def)

lemma constructor_loop:
  "runLoop constructorTeam constructorPR constructorConfig
     [\<lparr> login = Some ''alice'', state = ''APPROVED'', submitted_at = Some 1000 \<rparr>] = Threw []"
  unfolding runLoop_def constructor_domains constructor_approved
  by (simp add: readLabel_def falsy_def constructorConfig_def fetchTeamMembers_def readCache_def
                objectPrototypeKeys_def approversOf_def)

lemma constructor_prelude:
  "prelude constructorTeam constructorPR constructorConfig = [CallPullsGet]"
  unfolding prelude_def constructor_domains
  by (simp add: maybeRetractOnUnlabeled_def refreshPR_def ensureTeamReviewRequests_def slugs_def
                readLabel_def falsy_def alreadyRequested_def constructorConfig_def constructorTeam_def
                scenarioA_def)

lemma constructor_trace:
  "trace (run constructorTeam) = [CallGetContent, CallPullsGet, CallListReviews, SetFailed MsgUnhandled]"
  using run_aborts(1)[OF constructor_evaluates constructor_reviews]
  by (simp add: constructor_loop constructor_prelude)

text \<open>
  C1. The run on \<open>constructorTeam\<close>: the key \<open>frontend\<close> is matched and mapped to the team
  \<open>constructor\<close>, alice has approved and is a member of the team, and the run has no
  evaluation record for \<open>frontend\<close>. The team's members are never listed: the read of the
  empty cache under \<open>constructor\<close> gives the inherited value, \<open>members.has\<close> throws on it, and
  the run ends with the unhandled error.
\<close>

theorem constructor_team_no_record:
  "evaluates constructorTeam constructorPR constructorConfig
   \<and> domains (extractDomainLabels constructorConfig (pr_labels constructorPR)) = [''frontend'']
   \<and> labels constructorConfig ''frontend'' = Some ''constructor''
   \<and> resolvedMembers constructorTeam (Slug ''constructor'') = {''alice''}
   \<and> fetchTeamMembers constructorTeam (Slug ''constructor'') Map.empty
        = (NotASet ''constructor'', Map.empty, [])
   \<and> evaluations (run constructorTeam) = []
   \<and> trace (run constructorTeam)
        = [CallGetContent, CallPullsGet, CallListReviews, SetFailed MsgUnhandled]"
proof -
  have a: "labels constructorConfig ''frontend'' = Some ''constructor''"
    by (simp add: constructorConfig_def)
  have b: "resolvedMembers constructorTeam (Slug ''constructor'') = {''alice''}"
    by (simp add: resolvedMembers_def constructorTeam_def scenarioA_def logins_def)
  have c: "fetchTeamMembers constructorTeam (Slug ''constructor'') Map.empty
        = (NotASet ''constructor'', Map.empty, [])"
    by (simp add: fetchTeamMembers_def readCache_def objectPrototypeKeys_def)
  have d: "evaluations (run constructorTeam) = []"
    using run_aborts(2)[OF constructor_evaluates constructor_reviews]
    by (simp add: constructor_loop)
  show ?thesis
    using constructor_evaluates a b c d constructor_trace
    by (simp add: constructor_domains)
qed

text \<open>
  C2. The run on \<open>constructorTeam\<close> reaches the evaluation: the configuration is accepted,
  the PR is not a draft, \<open>frontend\<close> is matched and the reviews are listed. It sets none of
  the outputs \<open>status\<close>, \<open>required_labels\<close> and \<open>missing_approvals\<close> and creates no check run;
  its last effect is the failure with the unhandled error.
\<close>

theorem constructor_team_no_status:
  "evaluates constructorTeam constructorPR constructorConfig
   \<and> domains (extractDomainLabels constructorConfig (pr_labels constructorPR)) \<noteq> []
   \<and> CallListReviews \<in> set (trace (run constructorTeam))
   \<and> outputValue ''status'' (trace (run constructorTeam)) = None
   \<and> outputValue ''required_labels'' (trace (run constructorTeam)) = None
   \<and> outputValue ''missing_approvals'' (trace (run constructorTeam)) = None
   \<and> last (trace (run constructorTeam)) = SetFailed MsgUnhandled"
  using constructor_evaluates
  by (simp add: constructor_trace constructor_domains)

section \<open>Properties of team membership resolution\<close>









lemma scenario_valid: "validateConfig scenarioDoc = Inr scenarioConfig"
  by (simp add: scenarioDoc_def scenarioConfig_def validateConfig_def trim_def is_ws_def
                topRequiredApprovals_def boolOrTrue_def)






section \<open>Properties of the validated keys\<close>

lemma proto_valid: "validateConfig protoDoc = Inr protoConfig"
  by (simp add: protoDoc_def protoConfig_def validateConfig_def trim_def is_ws_def
                topRequiredApprovals_def boolOrTrue_def)

text \<open>
  C9. The document \<open>protoDoc\<close> is accepted; its only raw key trims to \<open>__proto__\<close>, and the
  policy has no domain key at all: the assignment of the team slug under \<open>__proto__\<close> to
  the plain object that collects the labels changes nothing. A PR with the label
  \<open>__proto__\<close> then has no matched domain.
\<close>

theorem proto_key_dropped:
  "validateConfig protoDoc = Inr protoConfig
   \<and> map (trim \<circ> fst) (entries (get_prop protoDoc ''labels'')) = [''__proto__'']
   \<and> dom (labels protoConfig) = {}
   \<and> domains (extractDomainLabels protoConfig [Some ''__proto__'']) = []"
  using proto_valid
  by (simp add: protoDoc_def protoConfig_def trim_def is_ws_def extractDomainLabels_def labelStep_def)

section \<open>Properties of the review request reconciler\<close>

lemma run_retracts:
  assumes ev: "evaluates w pr config"
  shows "set (maybeRetractOnUnlabeled w config) \<subseteq> set (trace (run w))"
proof -
  from ev have nd: "\<not> (ignoreDraft config \<and> draft pr)" by (simp add: evaluates_def)
  show ?thesis
    unfolding run_evaluates(1)[OF ev] runWithConfig_cases[OF nd] prelude_def
    by (auto split: api_result.split loop_result.split)
qed

lemma constructorUnlabeled_evaluates: "evaluates constructorUnlabeled scenarioPR scenarioConfig"
  using scenario_valid
  by (simp add: evaluates_def constructorUnlabeled_def scenarioA_def scenarioPR_def scenarioConfig_def)

text \<open>
  C7. The run on \<open>constructorUnlabeled\<close>: the removed label \<open>constructor\<close> is not a
  configured key of Scenario A, and \<open>maybeRetractOnUnlabeled\<close> calls for the removal of a
  requested team all the same, with the value that \<open>config.labels\<close> inherits under that name
  in the place of the team slug.
\<close>

theorem retract_unconfigured_label:
  "evaluates constructorUnlabeled scenarioPR scenarioConfig
   \<and> action constructorUnlabeled = Some ''unlabeled''
   \<and> removedLabel constructorUnlabeled = Some ''constructor''
   \<and> labels scenarioConfig ''constructor'' = None
   \<and> maybeRetractOnUnlabeled constructorUnlabeled scenarioConfig
        = [CallRemoveRequestedReviewers (Inherited ''constructor''),
           Warning (MsgFailedToRemove (Inherited ''constructor''))]
   \<and> CallRemoveRequestedReviewers (Inherited ''constructor'') \<in> set (trace (run constructorUnlabeled))"
proof -
  have m: "maybeRetractOnUnlabeled constructorUnlabeled scenarioConfig
        = [CallRemoveRequestedReviewers (Inherited ''constructor''),
           Warning (MsgFailedToRemove (Inherited ''constructor''))]"
    by (simp add: maybeRetractOnUnlabeled_def readLabel_def falsy_def objectPrototypeKeys_def
                  constructorUnlabeled_def scenarioA_def scenarioConfig_def)
  have r: "CallRemoveRequestedReviewers (Inherited ''constructor'') \<in> set (trace (run constructorUnlabeled))"
    using run_retracts[OF constructorUnlabeled_evaluates] unfolding m by simp
  show ?thesis
    using constructorUnlabeled_evaluates m r
    by (simp add: constructorUnlabeled_def scenarioA_def scenarioConfig_def)
qed















section \<open>Retraction and the draft check\<close>

text \<open>
  C10. In a run on a draft PR with \<open>ignoreDraft\<close> true, the retract operation comes before
  the draft check: the trace is the configuration fetch, the effects of
  \<open>maybeRetractOnUnlabeled\<close>, and then the draft skip with the status \<open>skipped\<close>. No review
  and no team is listed and there is no evaluation record. So when the event removes a
  configured label with \<open>retractOnUnlabeled\<close> true, the removal of the team's review request
  is in the trace, or its dry-run log line in dry-run.
\<close>

theorem retract_precedes_draft_skip:
  assumes tk: "token (inputs w) \<noteq> []"
    and pr: "pull_request w = Some pr"
    and sha: "head_sha pr \<noteq> None" "head_sha pr \<noteq> Some []"
    and cf: "configFetch w = FileContent raw"
    and ok: "validateConfig raw = Inr config"
    and dr: "ignoreDraft config" "draft pr"
  shows "trace (run w) =
           CallGetContent # maybeRetractOnUnlabeled w config @ [Info MsgDraft]
             @ createCheckRun w Skipped MsgDraft @ [SetOutput ''status'' ''skipped'']
     \<and> evaluations (run w) = []
     \<and> outputValue ''status'' (trace (run w)) = Some ''skipped''
     \<and> CallListReviews \<notin> set (trace (run w))
     \<and> CallListMembers s \<notin> set (trace (run w))
     \<and> (retractOnUnlabeled config
          \<and> (eventName w = ''pull_request'' \<or> eventName w = ''pull_request_target'')
          \<and> action w = Some ''unlabeled''
          \<and> removedLabel w = Some name \<and> name \<noteq> [] \<and> labels config name = Some slug
          \<longrightarrow> (if dryRun (inputs w)
               then Info (MsgDryRunWouldRemove (Slug slug)) \<in> set (trace (run w))
               else CallRemoveRequestedReviewers (Slug slug) \<in> set (trace (run w))))"
proof -
  let ?t = "CallGetContent # maybeRetractOnUnlabeled w config @ [Info MsgDraft]
             @ createCheckRun w Skipped MsgDraft @ [SetOutput ''status'' ''skipped'']"
  from sha obtain h where h: "head_sha pr = Some h" "h \<noteq> []" by auto
  have r: "run w = \<lparr> trace = ?t, evaluations = [] \<rparr>"
    using tk
    by (simp add: run_def pr h cf ok loadConfig_def Let_def runWithConfig_draft[OF dr])
  have t: "trace (run w) = ?t" and e: "evaluations (run w) = []" by (simp_all add: r)
  have o: "outputValue ''status'' ?t = Some ''skipped''"
    by (simp add: outputValue_append)
  note a = listing_absent[OF retract_no_listing[of s w config]]
  note b = listing_absent[OF check_no_listing[of s w Skipped MsgDraft]]
  have nl: "CallListReviews \<notin> set ?t" "CallListMembers s \<notin> set ?t"
    using a b by simp_all
  have rt: "if dryRun (inputs w)
               then Info (MsgDryRunWouldRemove (Slug slug)) \<in> set ?t
               else CallRemoveRequestedReviewers (Slug slug) \<in> set ?t"
    if h: "retractOnUnlabeled config
          \<and> (eventName w = ''pull_request'' \<or> eventName w = ''pull_request_target'')
          \<and> action w = Some ''unlabeled''
          \<and> removedLabel w = Some name \<and> name \<noteq> [] \<and> labels config name = Some slug"
  proof -
    from h have sl: "labels config name = Some slug" by simp
    have ne: "slug \<noteq> []" by (rule validated_slug_nonempty[OF ok sl])
    have "if dryRun (inputs w)
          then maybeRetractOnUnlabeled w config = [Info (MsgDryRunWouldRemove (Slug slug))]
          else \<exists>x. maybeRetractOnUnlabeled w config = [CallRemoveRequestedReviewers (Slug slug), x]"
      using h ne
      by (auto simp: maybeRetractOnUnlabeled_def readLabel_def falsy_def split: api_result.split)
    then show ?thesis by (auto split: if_splits)
  qed
  have rt': "retractOnUnlabeled config
          \<and> (eventName w = ''pull_request'' \<or> eventName w = ''pull_request_target'')
          \<and> action w = Some ''unlabeled''
          \<and> removedLabel w = Some name \<and> name \<noteq> [] \<and> labels config name = Some slug
          \<longrightarrow> (if dryRun (inputs w)
               then Info (MsgDryRunWouldRemove (Slug slug)) \<in> set ?t
               else CallRemoveRequestedReviewers (Slug slug) \<in> set ?t)"
    using rt by (rule impI)
  have "?t = ?t" ..
  with e o nl rt' show ?thesis unfolding t by (intro conjI)
qed

text \<open>
  The theorem at the draft PR from which \<open>billing\<close> is removed: the team \<open>finance-eng\<close> is
  removed from the requested reviewers and then the run is skipped.
\<close>

theorem retract_precedes_draft_skip_witness:
  "token (inputs scenarioDraft) \<noteq> []
   \<and> pull_request scenarioDraft = Some (scenarioPR\<lparr> draft := True \<rparr>)
   \<and> configFetch scenarioDraft = FileContent scenarioDoc
   \<and> validateConfig scenarioDoc = Inr scenarioConfig
   \<and> ignoreDraft scenarioConfig
   \<and> trace (run scenarioDraft) =
       [CallGetContent,
        CallRemoveRequestedReviewers (Slug ''finance-eng''),
        Info (MsgRemovedTeam (Slug ''finance-eng'') ''billing''),
        Info MsgDraft,
        CallChecksCreate Skipped MsgDraft,
        SetOutput ''status'' ''skipped'']
   \<and> evaluations (run scenarioDraft) = []"
proof -
  let ?pr = "scenarioPR\<lparr> draft := True \<rparr>"
  have tk: "token (inputs scenarioDraft) \<noteq> []"
    by (simp add: scenarioDraft_def scenarioUnlabeled_def scenarioA_def)
  have pr: "pull_request scenarioDraft = Some ?pr"
    by (simp add: scenarioDraft_def scenarioUnlabeled_def scenarioA_def)
  have sha: "head_sha ?pr \<noteq> None" "head_sha ?pr \<noteq> Some []"
    by (simp_all add: scenarioPR_def)
  have cf: "configFetch scenarioDraft = FileContent scenarioDoc"
    by (simp add: scenarioDraft_def scenarioUnlabeled_def scenarioA_def)
  have dr: "ignoreDraft scenarioConfig" "draft ?pr"
    by (simp_all add: scenarioConfig_def)
  have m: "maybeRetractOnUnlabeled scenarioDraft scenarioConfig
     = [CallRemoveRequestedReviewers (Slug ''finance-eng''),
        Info (MsgRemovedTeam (Slug ''finance-eng'') ''billing'')]"
    by (simp add: maybeRetractOnUnlabeled_def readLabel_def falsy_def scenarioDraft_def
                  scenarioUnlabeled_def scenarioA_def scenarioConfig_def)
  have c: "createCheckRun scenarioDraft Skipped MsgDraft = [CallChecksCreate Skipped MsgDraft]"
    by (simp add: createCheckRun_def scenarioDraft_def scenarioUnlabeled_def scenarioA_def)
  from retract_precedes_draft_skip [OF tk pr sha cf scenario_valid dr]
  have "trace (run scenarioDraft) =
           CallGetContent # maybeRetractOnUnlabeled scenarioDraft scenarioConfig @ [Info MsgDraft]
             @ createCheckRun scenarioDraft Skipped MsgDraft @ [SetOutput ''status'' ''skipped'']"
    and "evaluations (run scenarioDraft) = []"
    by blast+
  then show ?thesis using tk pr cf scenario_valid dr(1) by (simp add: m c)
qed

end
